theory Spec2Isabelle
  imports Main "HOL-Library.AList" "HOL-Library.Product_Lexorder"
begin

section \<open>Python values and calls into code outside the two modules\<close>

text \<open>
  The values that travel between router and backends: keys, cached values, replies.
  Python's \<^verbatim>\<open>bool\<close> is a subclass of \<^verbatim>\<open>int\<close>, so \<^verbatim>\<open>0 == False\<close> and
  \<^verbatim>\<open>1 == True\<close> hold; \<open>py_eq\<close> follows that. Floats are not modelled.
\<close>

datatype pyval = PNone | PBool bool | PInt int | PStr string

fun py_truthy :: "pyval \<Rightarrow> bool" where
  "py_truthy PNone = False"
| "py_truthy (PBool b) = b"
| "py_truthy (PInt i) = (i \<noteq> 0)"
| "py_truthy (PStr s) = (s \<noteq> [])"

fun py_eq :: "pyval \<Rightarrow> pyval \<Rightarrow> bool" where
  "py_eq (PBool a) (PInt i) = ((if a then 1 else 0) = i)"
| "py_eq (PInt i) (PBool a) = (i = (if a then 1 else 0))"
| "py_eq x y = (x = y)"

definition py_ne :: "pyval \<Rightarrow> pyval \<Rightarrow> bool" where
  "py_ne x y = (\<not> py_eq x y)"

text \<open>
  The outcome of a call whose code is not part of the two modules (a socket method, a
  function of \<^verbatim>\<open>utils\<close>): it raises, or it returns a value.
\<close>

datatype 'a call_result = Raises | Returns 'a

datatype error = EmptyRingError | ConnectionError | ZeroDivisionError | AttributeError

type_synonym sock = nat
type_synonym address = "string \<times> nat"

section \<open>health\_server.py\<close>

text \<open>
  The fields of \<^verbatim>\<open>HealthServer\<close> that the methods read and write. \<open>DEAD_THRESH\<close> is
  \<^verbatim>\<open>config.HEARTBEAT_THRESH\<close>, a parameter here.
\<close>

record health_server =
  clients :: "address list"
  unhealthy_clients :: "address list"
  DEAD_THRESH :: int

definition ACK_HEADER :: int where
  "ACK_HEADER = 3"

text \<open>
  Modelled from the spec: \<^verbatim>\<open>config.FORMAT\<close>, the encoding of \<^verbatim>\<open>'ACK'\<close>, is not in
  the sources; the spec fixes the payload as a 3-byte literal, which is the literal's bytes.
\<close>

definition ACK_MESSAGE :: string where
  "ACK_MESSAGE = ''ACK''"

definition HealthServer_init :: "int \<Rightarrow> health_server" where
  "HealthServer_init thresh = \<lparr>clients = [], unhealthy_clients = [], DEAD_THRESH = thresh\<rparr>"

text \<open>
  What the socket does in one round of the probing loop: the outcome of
  \<^verbatim>\<open>send(ACK_MESSAGE)\<close> (the number of bytes sent), and the outcome of
  \<^verbatim>\<open>settimeout(5); recv(ACK_HEADER)\<close>, which is only reached after a send of 3 bytes.
  A receive timeout is an exception of \<^verbatim>\<open>recv\<close>.
\<close>

type_synonym probe_io = "int call_result \<times> string call_result"

datatype round_result = Continue int | Break int

text \<open>The test after the \<^verbatim>\<open>try\<close> statement: \<^verbatim>\<open>if no_beat_count == self.DEAD_THRESH: break\<close>.\<close>

definition after_try :: "int \<Rightarrow> int \<Rightarrow> round_result" where
  "after_try thresh no_beat_count =
     (if no_beat_count = thresh then Break no_beat_count else Continue no_beat_count)"

text \<open>
  One pass through the body of \<^verbatim>\<open>while True\<close>, from the counter before to the counter
  after, and whether the loop goes on. The bare \<^verbatim>\<open>except\<close> catches what \<^verbatim>\<open>send\<close>
  raises as well as what \<^verbatim>\<open>recv\<close> raises. An acknowledged probe leaves by
  \<^verbatim>\<open>continue\<close> and skips the threshold test; an empty reply takes neither branch of the
  comparison and falls through to the test with the counter as it was.
\<close>

fun probe_round :: "int \<Rightarrow> int \<Rightarrow> probe_io \<Rightarrow> round_result" where
  "probe_round thresh no_beat_count (Raises, r) = after_try thresh (no_beat_count + 1)"
| "probe_round thresh no_beat_count (Returns bytes_sent, r) =
     (if bytes_sent \<noteq> ACK_HEADER then Break no_beat_count
      else (case r of
              Raises \<Rightarrow> after_try thresh (no_beat_count + 1)
            | Returns response \<Rightarrow>
                (if response \<noteq> [] then
                   (if response = ACK_MESSAGE then Continue 0
                    else after_try thresh (no_beat_count + 1))
                 else after_try thresh no_beat_count)))"

datatype probe_state = Probing int | Dead

text \<open>
  The loop over the rounds the environment has supplied so far. When the list is used up
  the loop is still running, with the counter it has reached.
\<close>

fun probe_loop :: "int \<Rightarrow> int \<Rightarrow> probe_io list \<Rightarrow> probe_state" where
  "probe_loop thresh no_beat_count [] = Probing no_beat_count"
| "probe_loop thresh no_beat_count (io # ios) =
     (case probe_round thresh no_beat_count io of
        Break n \<Rightarrow> Dead
      | Continue n \<Rightarrow> probe_loop thresh n ios)"

text \<open>
  \<^verbatim>\<open>probe_health\<close>, as run by one thread: the address is appended to the active list,
  the loop runs, and once it has been left the first occurrence of the address is removed
  from the active list and the address is appended to the unhealthy list.
\<close>

definition probe_health :: "address \<Rightarrow> probe_io list \<Rightarrow> health_server \<Rightarrow> health_server \<times> probe_state" where
  "probe_health client_address ios hs =
     (let hs1 = hs\<lparr>clients := clients hs @ [client_address]\<rparr>
      in case probe_loop (DEAD_THRESH hs1) 0 ios of
           Probing n \<Rightarrow> (hs1, Probing n)
         | Dead \<Rightarrow>
             (hs1\<lparr>clients := remove1 client_address (clients hs1),
                  unhealthy_clients := unhealthy_clients hs1 @ [client_address]\<rparr>, Dead))"

text \<open>
  \<^verbatim>\<open>report_health\<close>: the reply of \<^verbatim>\<open>utils.send_receive_ack\<close> is the environment's;
  the list is replaced by the empty list when the reply is truthy.
\<close>

definition report_health :: "pyval call_result \<Rightarrow> health_server \<Rightarrow> health_server \<times> (error + pyval)" where
  "report_health reply hs =
     (case reply of
        Raises \<Rightarrow> (hs, Inl ConnectionError)
      | Returns response \<Rightarrow>
          ((if py_truthy response then hs\<lparr>unhealthy_clients := []\<rparr> else hs), Inr response))"

definition acked :: probe_io where
  "acked = (Returns ACK_HEADER, Returns ACK_MESSAGE)"

section \<open>The consistent-hashing ring\<close>

text \<open>
  Modelled from the spec: the module \<^verbatim>\<open>src.consistenthashing\<close> (class
  \<^verbatim>\<open>ConsistentHashing\<close> with \<^verbatim>\<open>add_node\<close>, \<^verbatim>\<open>remove_node\<close>,
  \<^verbatim>\<open>get_node\<close>) is not in the sources. The spec describes the ring as positions
  ordered by hash value, \<open>R\<close> positions per node, one for each replica index in \<open>[0, R)\<close>,
  colliding positions ordered by node and none dropped; removal deletes every position of
  the node; lookup takes the first position at or after the key's hash, wrapping to the
  smallest, and fails on an empty ring. The two hash functions are parameters.
\<close>

record hashing =
  node_hash :: "sock \<Rightarrow> nat \<Rightarrow> nat"
  key_hash :: "pyval \<Rightarrow> nat"

type_synonym ring = "(nat \<times> sock) list"

definition add_node :: "hashing \<Rightarrow> sock \<Rightarrow> int \<Rightarrow> ring \<Rightarrow> ring" where
  "add_node h node replicas r =
     fold (\<lambda>i. insort (node_hash h node i, node)) [0..<nat replicas] r"

definition remove_node :: "sock \<Rightarrow> ring \<Rightarrow> ring" where
  "remove_node node r = filter (\<lambda>p. snd p \<noteq> node) r"

definition get_node :: "hashing \<Rightarrow> pyval \<Rightarrow> ring \<Rightarrow> error + sock" where
  "get_node h key r =
     (case r of
        [] \<Rightarrow> Inl EmptyRingError
      | p # ps \<Rightarrow>
          (case filter (\<lambda>q. key_hash h key \<le> fst q) r of
             [] \<Rightarrow> Inr (snd p)
           | q # qs \<Rightarrow> Inr (snd q)))"

definition positions_of :: "sock \<Rightarrow> ring \<Rightarrow> ring" where
  "positions_of node r = filter (\<lambda>p. snd p = node) r"

section \<open>server.py\<close>

datatype command =
  Cmd_get pyval
| Cmd_set pyval pyval
| Cmd_del pyval
| Cmd_add pyval pyval

datatype message = Msg_id int | Msg_cmd command

datatype log_entry = Log_config int int | Log_cmd command

text \<open>
  The fields of \<^verbatim>\<open>CacheServer\<close>. \<open>clients_dict\<close> is the dictionary
  \<^verbatim>\<open>self.clients\<close>, in insertion order. The last three fields are the effects on the
  world outside the object: \<open>backlog\<close> holds the connections waiting at
  \<^verbatim>\<open>server_socket.accept()\<close>; \<open>sent\<close> the messages handed to
  \<^verbatim>\<open>utils.send_message\<close> and \<^verbatim>\<open>utils.send_receive_ack\<close> with the socket they
  were handed with, in call order; \<open>journal\<close> what \<^verbatim>\<open>logging.info\<close> was given.
\<close>

record cache_server =
  num_virtual_replicas :: int
  expire :: int
  ring :: ring
  clients_dict :: "(int \<times> sock \<times> address) list"
  cache_hits :: int
  query_count :: int
  backlog :: "(sock \<times> address) list"
  sent :: "(sock \<times> message) list"
  journal :: "log_entry list"

definition CacheServer_init :: "int \<Rightarrow> int \<Rightarrow> cache_server" where
  "CacheServer_init replicas exp =
     \<lparr>num_virtual_replicas = replicas, expire = exp, ring = [], clients_dict = [],
      cache_hits = 0, query_count = 0, backlog = [], sent = [],
      journal = [Log_config replicas exp]\<rparr>"

text \<open>
  \<^verbatim>\<open>spawn\<close>: \<^verbatim>\<open>accept\<close> blocks while no connection is waiting, so on an empty
  backlog the method does not return (\<open>None\<close>). The body of \<^verbatim>\<open>while True\<close> ends in
  \<^verbatim>\<open>break\<close>, so it runs once. \<open>send_ok\<close> is the outcome of
  \<^verbatim>\<open>utils.send_message\<close>; when it raises, the dictionary has its new entry and the ring
  has not been touched.
\<close>

definition spawn :: "hashing \<Rightarrow> unit call_result \<Rightarrow> cache_server \<Rightarrow> (cache_server \<times> (error + pyval)) option" where
  "spawn h send_ok s =
     (case backlog s of
        [] \<Rightarrow> None
      | (client_socket, client_address) # waiting \<Rightarrow>
          (let s1 = s\<lparr>backlog := waiting\<rparr>;
               client_id = int (length (clients_dict s1));
               s2 = s1\<lparr>clients_dict :=
                        AList.update client_id (client_socket, client_address) (clients_dict s1)\<rparr>;
               s3 = s2\<lparr>sent := sent s2 @ [(client_socket, Msg_id client_id)]\<rparr>
           in case send_ok of
                Raises \<Rightarrow> Some (s3, Inl ConnectionError)
              | Returns u \<Rightarrow>
                  Some (s3\<lparr>ring := add_node h client_socket (num_virtual_replicas s3) (ring s3)\<rparr>,
                        Inr PNone)))"

definition send_receive :: "command \<Rightarrow> sock \<Rightarrow> pyval call_result \<Rightarrow> cache_server \<Rightarrow> cache_server \<times> (error + pyval)" where
  "send_receive message client_socket reply s =
     (let s1 = s\<lparr>sent := sent s @ [(client_socket, Msg_cmd message)]\<rparr>
      in case reply of
           Raises \<Rightarrow> (s1, Inl ConnectionError)
         | Returns response \<Rightarrow> (s1, Inr response))"

text \<open>\<^verbatim>\<open>_get_server_for_key\<close>: the ring's node for the key, paired with \<^verbatim>\<open>None\<close>.\<close>

definition get_server_for_key :: "hashing \<Rightarrow> pyval \<Rightarrow> cache_server \<Rightarrow> error + (sock \<times> address option)" where
  "get_server_for_key h key s =
     (case get_node h key (ring s) of
        Inl e \<Rightarrow> Inl e
      | Inr node \<Rightarrow> Inr (node, None))"

definition logging_info :: "command \<Rightarrow> cache_server \<Rightarrow> cache_server" where
  "logging_info c s = s\<lparr>journal := journal s @ [Log_cmd c]\<rparr>"

definition set_op :: "hashing \<Rightarrow> pyval \<Rightarrow> pyval \<Rightarrow> pyval call_result \<Rightarrow> cache_server \<Rightarrow> cache_server \<times> (error + pyval)" where
  "set_op h key val reply s =
     (case get_server_for_key h key s of
        Inl e \<Rightarrow> (s, Inl e)
      | Inr (client_socket, client_address) \<Rightarrow>
          (case send_receive (Cmd_set key val) client_socket reply s of
             (s1, Inl e) \<Rightarrow> (s1, Inl e)
           | (s1, Inr response) \<Rightarrow>
               (logging_info (Cmd_set key val) s1,
                Inr (if py_truthy response then PBool True else PBool False))))"

definition get :: "hashing \<Rightarrow> pyval \<Rightarrow> pyval call_result \<Rightarrow> cache_server \<Rightarrow> cache_server \<times> (error + pyval)" where
  "get h key reply s =
     (case get_server_for_key h key s of
        Inl e \<Rightarrow> (s, Inl e)
      | Inr (client_socket, client_address) \<Rightarrow>
          (case send_receive (Cmd_get key) client_socket reply s of
             (s1, Inl e) \<Rightarrow> (s1, Inl e)
           | (s1, Inr response) \<Rightarrow>
               (let s2 = logging_info (Cmd_get key) s1;
                    s3 = s2\<lparr>query_count := query_count s2 + 1\<rparr>;
                    s4 = s3\<lparr>cache_hits :=
                             cache_hits s3 + (if py_ne response (PBool False) then 1 else 0)\<rparr>
                in (s4, Inr response))))"

definition delete :: "hashing \<Rightarrow> pyval \<Rightarrow> pyval call_result \<Rightarrow> cache_server \<Rightarrow> cache_server \<times> (error + pyval)" where
  "delete h key reply s =
     (case get_server_for_key h key s of
        Inl e \<Rightarrow> (s, Inl e)
      | Inr (client_socket, client_address) \<Rightarrow>
          (case send_receive (Cmd_del key) client_socket reply s of
             (s1, Inl e) \<Rightarrow> (s1, Inl e)
           | (s1, Inr response) \<Rightarrow> (logging_info (Cmd_del key) s1, Inr response)))"

definition add :: "hashing \<Rightarrow> pyval \<Rightarrow> pyval \<Rightarrow> pyval call_result \<Rightarrow> cache_server \<Rightarrow> cache_server \<times> (error + pyval)" where
  "add h key diff reply s =
     (case get_server_for_key h key s of
        Inl e \<Rightarrow> (s, Inl e)
      | Inr (client_socket, client_address) \<Rightarrow>
          (case send_receive (Cmd_add key diff) client_socket reply s of
             (s1, Inl e) \<Rightarrow> (s1, Inl e)
           | (s1, Inr response) \<Rightarrow> (logging_info (Cmd_add key diff) s1, Inr response)))"

definition increment :: "hashing \<Rightarrow> pyval \<Rightarrow> pyval call_result \<Rightarrow> cache_server \<Rightarrow> cache_server \<times> (error + pyval)" where
  "increment h key reply s = add h key (PInt 1) reply s"

definition decrement :: "hashing \<Rightarrow> pyval \<Rightarrow> pyval call_result \<Rightarrow> cache_server \<Rightarrow> cache_server \<times> (error + pyval)" where
  "decrement h key reply s = add h key (PInt (- 1)) reply s"

text \<open>\<^verbatim>\<open>_delist_unavailable_server\<close>: one call, to the ring.\<close>

definition delist_unavailable_server :: "sock \<Rightarrow> cache_server \<Rightarrow> cache_server" where
  "delist_unavailable_server client_socket s = s\<lparr>ring := remove_node client_socket (ring s)\<rparr>"

text \<open>
  \<^verbatim>\<open>stats\<close>: the first \<^verbatim>\<open>print\<close> succeeds. The arguments of the second
  \<^verbatim>\<open>format\<close> are evaluated first, and \<^verbatim>\<open>self.cache_hits / self.query_count\<close> raises
  ZeroDivisionError when the count is 0. Otherwise \<^verbatim>\<open>format\<close> runs, and its field
  \<^verbatim>\<open>{.2f}\<close> is the attribute \<^verbatim>\<open>2f\<close> of the quotient, a float, which has none:
  AttributeError. No field of the object is written.
\<close>

definition stats :: "cache_server \<Rightarrow> cache_server \<times> (error + pyval)" where
  "stats s = (if query_count s = 0 then (s, Inl ZeroDivisionError) else (s, Inl AttributeError))"

text \<open>
  A caller's session with the router: method calls, each with what the network answers to
  it, and backends connecting in between. A call that raises leaves the caller free to go
  on; a \<^verbatim>\<open>spawn\<close> with nobody waiting never returns, and the session with it.
\<close>

datatype call =
  Call_get pyval
| Call_set pyval pyval
| Call_delete pyval
| Call_add pyval pyval
| Call_increment pyval
| Call_decrement pyval
| Call_stats
| Call_spawn
| Call_delist sock
| Backend_connects sock address

fun perform :: "hashing \<Rightarrow> call \<Rightarrow> pyval call_result \<Rightarrow> cache_server \<Rightarrow> (cache_server \<times> (error + pyval)) option" where
  "perform h (Call_get key) reply s = Some (get h key reply s)"
| "perform h (Call_set key val) reply s = Some (set_op h key val reply s)"
| "perform h (Call_delete key) reply s = Some (delete h key reply s)"
| "perform h (Call_add key diff) reply s = Some (add h key diff reply s)"
| "perform h (Call_increment key) reply s = Some (increment h key reply s)"
| "perform h (Call_decrement key) reply s = Some (decrement h key reply s)"
| "perform h Call_stats reply s = Some (stats s)"
| "perform h Call_spawn reply s =
     spawn h (case reply of Raises \<Rightarrow> Raises | Returns v \<Rightarrow> Returns ()) s"
| "perform h (Call_delist client_socket) reply s =
     Some (delist_unavailable_server client_socket s, Inr PNone)"
| "perform h (Backend_connects client_socket client_address) reply s =
     Some (s\<lparr>backlog := backlog s @ [(client_socket, client_address)]\<rparr>, Inr PNone)"

type_synonym trace = "(call \<times> (error + pyval)) list"

fun run :: "hashing \<Rightarrow> (call \<times> pyval call_result) list \<Rightarrow> cache_server \<Rightarrow> (cache_server \<times> trace) option" where
  "run h [] s = Some (s, [])"
| "run h ((c, reply) # rest) s =
     (case perform h c reply s of
        None \<Rightarrow> None
      | Some (s1, res) \<Rightarrow>
          (case run h rest s1 of
             None \<Rightarrow> None
           | Some (s2, tr) \<Rightarrow> Some (s2, (c, res) # tr)))"

text \<open>
  The entries of a trace at which \<^verbatim>\<open>get\<close> moves a counter: a \<^verbatim>\<open>get\<close> that returned
  adds one to \<^verbatim>\<open>query_count\<close>, and adds one to \<^verbatim>\<open>cache_hits\<close> when its reply passes
  the method's test \<^verbatim>\<open>response != False\<close>. The test is Python's equality: the reply
  \<^verbatim>\<open>0\<close> does not pass it.
\<close>

fun completed_get :: "call \<times> (error + pyval) \<Rightarrow> bool" where
  "completed_get (Call_get key, Inr v) = True"
| "completed_get other = False"

fun hit_counted :: "call \<times> (error + pyval) \<Rightarrow> bool" where
  "hit_counted (Call_get key, Inr v) = py_ne v (PBool False)"
| "hit_counted other = False"

fun is_get :: "call \<Rightarrow> bool" where
  "is_get (Call_get key) = True"
| "is_get other = False"

text \<open>The ids of the dictionary are \<open>0, 1, \<dots>\<close> in the order they were given out.\<close>

definition ids_sequential :: "cache_server \<Rightarrow> bool" where
  "ids_sequential s = (map fst (clients_dict s) = map int [0..<length (clients_dict s)])"

text \<open>The counters of the statistics are ordered: no more hits than queries.\<close>

definition stats_inv :: "cache_server \<Rightarrow> bool" where
  "stats_inv s = (0 \<le> cache_hits s \<and> cache_hits s \<le> query_count s)"

text \<open>A small pair of hash functions for the worked examples.\<close>

definition test_hashing :: hashing where
  "test_hashing = \<lparr>node_hash = (\<lambda>node i. 10 * node + i), key_hash = (\<lambda>key. 0)\<rparr>"

text \<open>
  Two sessions for the worked examples, and the server as it is after one backend has been
  registered with two replicas.
\<close>

definition test_session :: "(call \<times> pyval call_result) list" where
  "test_session =
     [(Backend_connects 7 (''10.0.0.2'', 6000), Returns PNone),
      (Call_spawn, Returns PNone),
      (Call_set (PStr ''x'') (PInt 1), Returns (PBool True)),
      (Call_get (PStr ''x''), Returns (PInt 1)),
      (Call_get (PStr ''y''), Returns (PBool False)),
      (Call_increment (PStr ''x''), Returns (PInt 2)),
      (Call_get (PStr ''z''), Raises),
      (Call_stats, Returns PNone)]"

definition zero_session :: "(call \<times> pyval call_result) list" where
  "zero_session =
     [(Backend_connects 7 (''10.0.0.2'', 6000), Returns PNone),
      (Call_spawn, Returns PNone),
      (Call_set (PStr ''x'') (PInt 1), Returns (PBool True)),
      (Call_decrement (PStr ''x''), Returns (PInt 0)),
      (Call_get (PStr ''x''), Returns (PInt 0))]"

definition one_backend :: cache_server where
  "one_backend =
     \<lparr>num_virtual_replicas = 2, expire = 0, ring = [(70, 7), (71, 7)],
      clients_dict = [(0, 7, (''10.0.0.2'', 6000))], cache_hits = 0, query_count = 0,
      backlog = [], sent = [(7, Msg_id 0)], journal = [Log_config 2 0]\<rparr>"

section \<open>The probing loop\<close>

lemma probe_round_acked: "probe_round thresh n acked = Continue 0"
  by (simp add: acked_def ACK_MESSAGE_def)

lemma probe_loop_append:
  "probe_loop thresh n (xs @ ys) =
     (case probe_loop thresh n xs of Dead \<Rightarrow> Dead | Probing m \<Rightarrow> probe_loop thresh m ys)"
  by (induction xs arbitrary: n) (auto split: round_result.splits)

lemma probe_round_empty_reply:
  "probe_round thresh n (Returns ACK_HEADER, Returns []) = after_try thresh n"
  by simp

lemma probe_loop_empty_replies:
  "n \<noteq> thresh \<Longrightarrow>
   probe_loop thresh n (replicate k (Returns ACK_HEADER, Returns [])) = Probing n"
  by (induction k) (simp_all add: after_try_def)

section \<open>Router: dictionary and ring lemmas\<close>

lemma update_fresh_key:
  "k \<notin> fst ` set al \<Longrightarrow> AList.update k v al = al @ [(k, v)]"
  by (induction al) auto

lemma ids_sequential_keys:
  "ids_sequential s \<Longrightarrow> fst ` set (clients_dict s) = int ` {0..<length (clients_dict s)}"
proof -
  assume "ids_sequential s"
  then have "set (map fst (clients_dict s)) = set (map int [0..<length (clients_dict s)])"
    by (simp add: ids_sequential_def)
  then show ?thesis by simp
qed

lemma ids_sequential_next_fresh:
  "ids_sequential s \<Longrightarrow> int (length (clients_dict s)) \<notin> fst ` set (clients_dict s)"
  by (auto simp: ids_sequential_keys)

lemma ids_sequential_Max:
  assumes "ids_sequential s" "clients_dict s \<noteq> []"
  shows "Max (fst ` set (clients_dict s)) = int (length (clients_dict s)) - 1"
proof (rule Max_eqI)
  show "finite (fst ` set (clients_dict s))" by simp
next
  fix y assume "y \<in> fst ` set (clients_dict s)"
  with assms(1) show "y \<le> int (length (clients_dict s)) - 1"
    by (auto simp: ids_sequential_keys)
next
  from assms(2) have "length (clients_dict s) - 1 \<in> {0..<length (clients_dict s)}"
    by (cases "clients_dict s") auto
  then have "int (length (clients_dict s) - 1) \<in> int ` {0..<length (clients_dict s)}"
    by (rule imageI)
  moreover from assms(2) have "int (length (clients_dict s) - 1) = int (length (clients_dict s)) - 1"
    by (cases "clients_dict s") auto
  ultimately show "int (length (clients_dict s)) - 1 \<in> fst ` set (clients_dict s)"
    using assms(1) by (simp add: ids_sequential_keys)
qed

lemma ids_sequential_init: "ids_sequential (CacheServer_init replicas exp)"
  by (simp add: ids_sequential_def CacheServer_init_def)

lemma ids_sequential_snoc:
  "ids_sequential s \<Longrightarrow>
   ids_sequential (s\<lparr>clients_dict := clients_dict s @ [(int (length (clients_dict s)), c)]\<rparr>)"
  by (simp add: ids_sequential_def)

lemma length_filter_insort:
  "length (filter P (insort x xs)) = (if P x then 1 else 0) + length (filter P xs)"
  by (induction xs) auto

lemma positions_of_fold_same:
  "length (positions_of node (fold (\<lambda>i. insort (f i, node)) is r)) =
     length (positions_of node r) + length is"
  by (induction "is" arbitrary: r) (auto simp: positions_of_def length_filter_insort)

lemma positions_of_fold_other:
  "m \<noteq> node \<Longrightarrow> positions_of m (fold (\<lambda>i. insort (f i, node)) is r) = positions_of m r"
  by (induction "is" arbitrary: r) (auto simp: positions_of_def filter_insort_triv)

lemma positions_of_add_node_same:
  "length (positions_of node (add_node h node replicas r)) =
     length (positions_of node r) + nat replicas"
  by (simp add: add_node_def positions_of_fold_same)

lemma positions_of_add_node_other:
  "m \<noteq> node \<Longrightarrow> positions_of m (add_node h node replicas r) = positions_of m r"
  by (simp add: add_node_def positions_of_fold_other)

lemma positions_of_remove_node_same: "positions_of node (remove_node node r) = []"
  by (induction r) (auto simp: positions_of_def remove_node_def)

lemma positions_of_remove_node_other:
  "m \<noteq> node \<Longrightarrow> positions_of m (remove_node node r) = positions_of m r"
  by (induction r) (auto simp: positions_of_def remove_node_def)

section \<open>Router: the counters\<close>

lemmas router_defs =
  get_server_for_key_def send_receive_def logging_info_def Let_def

lemma get_counters:
  "get h key reply s = (s1, res) \<Longrightarrow>
   query_count s1 = query_count s + (if completed_get (Call_get key, res) then 1 else 0) \<and>
   cache_hits s1 = cache_hits s + (if hit_counted (Call_get key, res) then 1 else 0)"
  by (auto simp: get_def router_defs split: sum.splits call_result.splits)

lemma set_op_counters:
  "set_op h key val reply s = (s1, res) \<Longrightarrow>
   query_count s1 = query_count s \<and> cache_hits s1 = cache_hits s"
  by (auto simp: set_op_def router_defs split: sum.splits call_result.splits)

lemma delete_counters:
  "delete h key reply s = (s1, res) \<Longrightarrow>
   query_count s1 = query_count s \<and> cache_hits s1 = cache_hits s"
  by (auto simp: delete_def router_defs split: sum.splits call_result.splits)

lemma add_counters:
  "add h key diff reply s = (s1, res) \<Longrightarrow>
   query_count s1 = query_count s \<and> cache_hits s1 = cache_hits s"
  by (auto simp: add_def router_defs split: sum.splits call_result.splits)

lemma stats_counters:
  "stats s = (s1, res) \<Longrightarrow> query_count s1 = query_count s \<and> cache_hits s1 = cache_hits s"
  by (auto simp: stats_def split: if_splits)

lemma spawn_counters:
  "spawn h send_ok s = Some (s1, res) \<Longrightarrow>
   query_count s1 = query_count s \<and> cache_hits s1 = cache_hits s"
  by (auto simp: spawn_def Let_def split: list.splits call_result.splits)

lemma perform_other_counters:
  "perform h c reply s = Some (s1, res) \<Longrightarrow> \<not> is_get c \<Longrightarrow>
   query_count s1 = query_count s \<and> cache_hits s1 = cache_hits s"
  by (cases c)
     (auto simp: increment_def decrement_def delist_unavailable_server_def
           dest: set_op_counters delete_counters add_counters stats_counters spawn_counters)

lemma perform_counters:
  "perform h c reply s = Some (s1, res) \<Longrightarrow>
   query_count s1 = query_count s + (if completed_get (c, res) then 1 else 0) \<and>
   cache_hits s1 = cache_hits s + (if hit_counted (c, res) then 1 else 0)"
proof (cases "is_get c")
  case True
  assume p: "perform h c reply s = Some (s1, res)"
  from True obtain key where "c = Call_get key" by (cases c) auto
  with p show ?thesis using get_counters [of h key reply s s1 res] by simp
next
  case False
  assume p: "perform h c reply s = Some (s1, res)"
  from False have "\<not> completed_get (c, res)" "\<not> hit_counted (c, res)"
    by (cases c; simp)+
  with perform_other_counters [OF p False] show ?thesis by simp
qed

lemma run_counters:
  "run h calls s = Some (s', tr) \<Longrightarrow>
   query_count s' = query_count s + int (length (filter completed_get tr)) \<and>
   cache_hits s' = cache_hits s + int (length (filter hit_counted tr))"
proof (induction calls arbitrary: s tr)
  case Nil
  then show ?case by simp
next
  case (Cons a calls)
  obtain c reply where a: "a = (c, reply)" by (cases a)
  from Cons.prems a obtain s1 res tr1 where
    p: "perform h c reply s = Some (s1, res)" and
    r: "run h calls s1 = Some (s', tr1)" and
    t: "tr = (c, res) # tr1"
    by (auto split: option.splits)
  from perform_counters [OF p] Cons.IH [OF r] t show ?case by simp
qed

lemma hit_counted_completed: "hit_counted x \<Longrightarrow> completed_get x"
  by (cases x rule: hit_counted.cases) auto

lemma filter_hit_counted_le_completed:
  "length (filter hit_counted tr) \<le> length (filter completed_get tr)"
proof -
  have "filter hit_counted tr = filter hit_counted (filter completed_get tr)"
    by (auto simp: hit_counted_completed intro: filter_cong)
  then show ?thesis by (metis length_filter_le)
qed

lemmas test_defs =
  test_session_def one_backend_def CacheServer_init_def test_hashing_def spawn_def add_node_def
  get_def set_op_def add_def delete_def increment_def decrement_def stats_def
  delist_unavailable_server_def remove_node_def positions_of_def
  router_defs get_node_def py_ne_def upt_rec

section \<open>Router: the ids of the dictionary\<close>

lemma spawn_ids_sequential:
  "ids_sequential s \<Longrightarrow> spawn h send_ok s = Some (s1, res) \<Longrightarrow> ids_sequential s1"
proof -
  assume i: "ids_sequential s" and sp: "spawn h send_ok s = Some (s1, res)"
  have u: "AList.update (int (length (clients_dict s))) c (clients_dict s) =
      clients_dict s @ [(int (length (clients_dict s)), c)]" for c
    using i by (intro update_fresh_key ids_sequential_next_fresh)
  from sp have "clients_dict s1 =
      clients_dict s @ [(int (length (clients_dict s)), fst (hd (backlog s)), snd (hd (backlog s)))]"
    by (auto simp: spawn_def Let_def u split: list.splits call_result.splits)
  with i show ?thesis by (simp add: ids_sequential_def)
qed

lemma perform_ids_sequential:
  "ids_sequential s \<Longrightarrow> perform h c reply s = Some (s1, res) \<Longrightarrow> ids_sequential s1"
proof (cases "c = Call_spawn")
  case True
  assume "ids_sequential s" "perform h c reply s = Some (s1, res)"
  with True show ?thesis by (auto dest: spawn_ids_sequential)
next
  case False
  assume i: "ids_sequential s" and p: "perform h c reply s = Some (s1, res)"
  from False p have "clients_dict s1 = clients_dict s"
    by (cases c)
       (auto simp: get_def set_op_def delete_def add_def increment_def decrement_def stats_def
          delist_unavailable_server_def router_defs
          split: sum.splits call_result.splits if_splits)
  with i show ?thesis by (simp add: ids_sequential_def)
qed

lemma run_ids_sequential:
  "ids_sequential s \<Longrightarrow> run h calls s = Some (s', tr) \<Longrightarrow> ids_sequential s'"
proof (induction calls arbitrary: s tr)
  case Nil
  then show ?case by simp
next
  case (Cons a calls)
  obtain c reply where a: "a = (c, reply)" by (cases a)
  from Cons.prems(2) a obtain s1 res tr1 where
    p: "perform h c reply s = Some (s1, res)" and
    r: "run h calls s1 = Some (s', tr1)"
    by (auto split: option.splits)
  from perform_ids_sequential [OF Cons.prems(1) p] r show ?case
    by (rule Cons.IH)
qed

section \<open>Heartbeat monitor: the claims\<close>

text \<open>
  C1. Three consecutive probes, each sent in full and each answered by an empty reply, are
  three probes that the node has not acknowledged, counted from 0 with \<open>DEAD_THRESH = 3\<close>.
  The loop is not left: the node is still Probing with the counter at 0, its address is
  still in the active list and the unhealthy list is empty.
\<close>

theorem unacknowledged_probes_leave_node_active:
  "probe_health (''10.0.0.7'', 5001)
     [(Returns 3, Returns []), (Returns 3, Returns []), (Returns 3, Returns [])]
     (HealthServer_init 3)
   = (\<lparr>clients = [(''10.0.0.7'', 5001)], unhealthy_clients = [], DEAD_THRESH = 3\<rparr>, Probing 0)
   \<and> [] \<noteq> ACK_MESSAGE"
  by (simp add: probe_health_def HealthServer_init_def ACK_HEADER_def ACK_MESSAGE_def
      after_try_def)

text \<open>
  C5. A complete send answered by an empty reply: the reply differs from the acknowledgment,
  and the counter is not incremented. Three such rounds in a row leave the node Probing with
  the counter at 0.
\<close>

theorem probe_round_empty_reply_not_counted:
  "probe_round 3 0 (Returns 3, Returns []) = Continue 0
   \<and> [] \<noteq> ACK_MESSAGE
   \<and> probe_loop 3 0 [(Returns 3, Returns []), (Returns 3, Returns []), (Returns 3, Returns [])]
       = Probing 0"
  by (simp add: ACK_HEADER_def ACK_MESSAGE_def after_try_def)

text \<open>
  C6, as stated, fails for a short send: with threshold 3 and the counter at 0, a send of
  2 bytes does not continue with the counter at 1; the loop is left at once and the node is
  moved to the unhealthy list.
\<close>

theorem short_send_counterexample:
  "probe_round 3 0 (Returns 2, Raises) \<noteq> Continue 1
   \<and> probe_round 3 0 (Returns 2, Raises) = Break 0
   \<and> probe_health (''10.0.0.7'', 5001) [(Returns 2, Raises)] (HealthServer_init 3)
      = (\<lparr>clients = [], unhealthy_clients = [(''10.0.0.7'', 5001)], DEAD_THRESH = 3\<rparr>, Dead)"
  by (simp add: ACK_HEADER_def probe_health_def HealthServer_init_def)

text \<open>
  C6, amended. A send that raises is one miss: the counter is incremented by 1, and the loop
  goes on unless the counter has thereby reached the threshold. A send that returns a byte
  count other than 3 ends the loop at once, whatever the counter, and the node is Dead.
\<close>

theorem send_failure_rounds:
  "probe_round thresh n (Raises, r) =
     (if n + 1 = thresh then Break (n + 1) else Continue (n + 1))
   \<and> (n + 1 \<noteq> thresh \<longrightarrow> probe_loop thresh n ((Raises, r) # ios) = probe_loop thresh (n + 1) ios)
   \<and> (bytes_sent \<noteq> ACK_HEADER \<longrightarrow>
        probe_round thresh n (Returns bytes_sent, r) = Break n \<and>
        probe_loop thresh n ((Returns bytes_sent, r) # ios) = Dead)"
  by (simp add: after_try_def)

theorem send_failure_rounds_witness:
  "probe_round 3 0 (Raises, Raises) = Continue 1
   \<and> probe_loop 3 0 [(Raises, Raises)] = Probing 1
   \<and> (2::int) \<noteq> ACK_HEADER
   \<and> probe_round 3 0 (Returns 2, Raises) = Break 0
   \<and> probe_loop 3 0 [(Returns 2, Raises), acked] = Dead"
  using send_failure_rounds [where thresh = 3 and n = 0 and r = Raises and ios = "[]" and bytes_sent = 2]
    send_failure_rounds [where thresh = 3 and n = 0 and r = Raises and ios = "[acked]" and bytes_sent = 2]
  by (simp add: ACK_HEADER_def after_try_def)

text \<open>
  C8. \<open>report_health\<close> replaces the unhealthy list by the empty list when the reply is
  truthy; when the call raises or the reply is falsy the server is exactly as before. So an
  entry that is gone after the call was there when a truthy reply came.
\<close>

theorem report_health_clears_only_on_ack:
  "(reply = Returns response \<and> py_truthy response \<longrightarrow>
      fst (report_health reply hs) = hs\<lparr>unhealthy_clients := []\<rparr>)
   \<and> (reply = Raises \<or> (reply = Returns response \<and> \<not> py_truthy response) \<longrightarrow>
      fst (report_health reply hs) = hs)
   \<and> (x \<in> set (unhealthy_clients hs) \<and> x \<notin> set (unhealthy_clients (fst (report_health reply hs))) \<longrightarrow>
      (\<exists>r. reply = Returns r \<and> py_truthy r))"
  by (cases reply) (auto simp: report_health_def)

theorem report_health_clears_only_on_ack_witness:
  "py_truthy (PBool True)
   \<and> fst (report_health (Returns (PBool True))
          \<lparr>clients = [], unhealthy_clients = [(''10.0.0.7'', 5001)], DEAD_THRESH = 3\<rparr>)
      = \<lparr>clients = [], unhealthy_clients = [], DEAD_THRESH = 3\<rparr>
   \<and> \<not> py_truthy (PBool False)
   \<and> fst (report_health (Returns (PBool False))
          \<lparr>clients = [], unhealthy_clients = [(''10.0.0.7'', 5001)], DEAD_THRESH = 3\<rparr>)
      = \<lparr>clients = [], unhealthy_clients = [(''10.0.0.7'', 5001)], DEAD_THRESH = 3\<rparr>
   \<and> fst (report_health Raises
          \<lparr>clients = [], unhealthy_clients = [(''10.0.0.7'', 5001)], DEAD_THRESH = 3\<rparr>)
      = \<lparr>clients = [], unhealthy_clients = [(''10.0.0.7'', 5001)], DEAD_THRESH = 3\<rparr>"
  using report_health_clears_only_on_ack [of "Returns (PBool True)" "PBool True"
      "\<lparr>clients = [], unhealthy_clients = [(''10.0.0.7'', 5001)], DEAD_THRESH = 3\<rparr>"]
    report_health_clears_only_on_ack [of "Returns (PBool False)" "PBool False"
      "\<lparr>clients = [], unhealthy_clients = [(''10.0.0.7'', 5001)], DEAD_THRESH = 3\<rparr>"]
    report_health_clears_only_on_ack [of Raises "PBool False"
      "\<lparr>clients = [], unhealthy_clients = [(''10.0.0.7'', 5001)], DEAD_THRESH = 3\<rparr>"]
  by simp

section \<open>Cache router: the claims\<close>

text \<open>
  C2. A session with one backend: \<open>set\<close> of a key to 1, \<open>decrement\<close> of the key, answered
  with the new value 0, and a \<open>get\<close> of the key that returns the cached value 0. The
  \<open>get\<close> has returned a value that is present and is not \<^verbatim>\<open>False\<close>;
  \<open>query_count\<close> is 1 and \<open>cache_hits\<close> is 0.
\<close>

theorem cached_zero_counted_as_miss:
  "map_option (last \<circ> snd) (run test_hashing zero_session (CacheServer_init 2 0))
     = Some (Call_get (PStr ''x''), Inr (PInt 0))
   \<and> PInt 0 \<noteq> PBool False
   \<and> map_option (query_count \<circ> fst) (run test_hashing zero_session (CacheServer_init 2 0)) = Some 1
   \<and> map_option (cache_hits \<circ> fst) (run test_hashing zero_session (CacheServer_init 2 0)) = Some 0"
  by (simp add: zero_session_def test_defs)

text \<open>
  C10. The initial state has both counters at 0. Every call keeps
  \<open>0 \<le> cache_hits \<le> query_count\<close> and lowers neither counter, and so does every session.
\<close>

theorem counters_invariant:
  "stats_inv (CacheServer_init replicas exp)
   \<and> cache_hits (CacheServer_init replicas exp) = 0
   \<and> query_count (CacheServer_init replicas exp) = 0
   \<and> (stats_inv s \<and> perform h c reply s = Some (s1, res) \<longrightarrow>
        stats_inv s1 \<and> cache_hits s \<le> cache_hits s1 \<and> query_count s \<le> query_count s1)
   \<and> (stats_inv s \<and> run h calls s = Some (s', tr) \<longrightarrow>
        stats_inv s' \<and> cache_hits s \<le> cache_hits s' \<and> query_count s \<le> query_count s')"
proof (intro conjI impI)
  show "stats_inv (CacheServer_init replicas exp)"
    "cache_hits (CacheServer_init replicas exp) = 0"
    "query_count (CacheServer_init replicas exp) = 0"
    by (simp_all add: stats_inv_def CacheServer_init_def)
next
  assume a: "stats_inv s \<and> perform h c reply s = Some (s1, res)"
  then have p: "perform h c reply s = Some (s1, res)" by simp
  from perform_counters [OF p] a hit_counted_completed [of "(c, res)"]
  show "stats_inv s1" "cache_hits s \<le> cache_hits s1" "query_count s \<le> query_count s1"
    by (auto simp: stats_inv_def split: if_splits)
next
  assume a: "stats_inv s \<and> run h calls s = Some (s', tr)"
  then have r: "run h calls s = Some (s', tr)" by simp
  from run_counters [OF r] a filter_hit_counted_le_completed [of tr]
  show "stats_inv s'" "cache_hits s \<le> cache_hits s'" "query_count s \<le> query_count s'"
    by (auto simp: stats_inv_def)
qed

theorem counters_invariant_witness:
  "stats_inv (CacheServer_init 2 0)
   \<and> perform test_hashing (Call_get (PStr ''x'')) (Returns (PInt 1)) one_backend
       = Some (one_backend\<lparr>sent := [(7, Msg_id 0), (7, Msg_cmd (Cmd_get (PStr ''x'')))],
                           journal := [Log_config 2 0, Log_cmd (Cmd_get (PStr ''x''))],
                           query_count := 1, cache_hits := 1\<rparr>, Inr (PInt 1))
   \<and> stats_inv one_backend
   \<and> stats_inv (one_backend\<lparr>sent := [(7, Msg_id 0), (7, Msg_cmd (Cmd_get (PStr ''x'')))],
                           journal := [Log_config 2 0, Log_cmd (Cmd_get (PStr ''x''))],
                           query_count := 1, cache_hits := 1\<rparr>)
   \<and> map_option (stats_inv \<circ> fst) (run test_hashing test_session (CacheServer_init 2 0)) = Some True"
proof -
  have p: "perform test_hashing (Call_get (PStr ''x'')) (Returns (PInt 1)) one_backend
       = Some (one_backend\<lparr>sent := [(7, Msg_id 0), (7, Msg_cmd (Cmd_get (PStr ''x'')))],
                           journal := [Log_config 2 0, Log_cmd (Cmd_get (PStr ''x''))],
                           query_count := 1, cache_hits := 1\<rparr>, Inr (PInt 1))"
    by (simp add: test_defs)
  have i: "stats_inv one_backend" "stats_inv (CacheServer_init 2 0)"
    by (simp_all add: stats_inv_def test_defs)
  obtain s' tr where r: "run test_hashing test_session (CacheServer_init 2 0) = Some (s', tr)"
    by (simp add: test_defs)
  from counters_invariant [where s = one_backend and h = test_hashing
      and c = "Call_get (PStr ''x'')" and reply = "Returns (PInt 1)"
      and ?s1.0 = "one_backend\<lparr>sent := [(7, Msg_id 0), (7, Msg_cmd (Cmd_get (PStr ''x'')))],
                           journal := [Log_config 2 0, Log_cmd (Cmd_get (PStr ''x''))],
                           query_count := 1, cache_hits := 1\<rparr>"
      and res = "Inr (PInt 1)"] p i
  have a: "stats_inv (one_backend\<lparr>sent := [(7, Msg_id 0), (7, Msg_cmd (Cmd_get (PStr ''x'')))],
                           journal := [Log_config 2 0, Log_cmd (Cmd_get (PStr ''x''))],
                           query_count := 1, cache_hits := 1\<rparr>)"
    by blast
  from counters_invariant [where s = "CacheServer_init 2 0" and h = test_hashing
      and calls = test_session and s' = s' and tr = tr and replicas = 2 and exp = 0] r
  have b: "stats_inv s'" by blast
  from p i a b r show ?thesis by simp
qed

text \<open>
  C7. On a server that has answered no \<open>get\<close> yet, \<open>stats\<close> raises ZeroDivisionError:
  the quotient is computed with no test of the divisor.
\<close>

theorem stats_raises_on_fresh_server:
  "stats (CacheServer_init replicas exp) = (CacheServer_init replicas exp, Inl ZeroDivisionError)"
  by (simp add: stats_def CacheServer_init_def)

text \<open>
  C9. \<open>increment\<close> is \<open>add\<close> with 1 and \<open>decrement\<close> is \<open>add\<close> with -1: the same state
  and the same result. When the ring has a node for the key, the command handed to the wire
  is the add command with that delta, and the reply is returned as it came.
\<close>

theorem increment_decrement_are_add:
  "increment h key reply s = add h key (PInt 1) reply s
   \<and> decrement h key reply s = add h key (PInt (- 1)) reply s
   \<and> (get_node h key (ring s) = Inr node \<longrightarrow>
        sent (fst (increment h key reply s)) = sent s @ [(node, Msg_cmd (Cmd_add key (PInt 1)))] \<and>
        sent (fst (decrement h key reply s)) = sent s @ [(node, Msg_cmd (Cmd_add key (PInt (- 1))))] \<and>
        (reply = Returns v \<longrightarrow>
           snd (increment h key reply s) = Inr v \<and> snd (decrement h key reply s) = Inr v))"
  by (auto simp: increment_def decrement_def add_def router_defs split: call_result.splits)

theorem increment_decrement_are_add_witness:
  "get_node test_hashing (PStr ''x'') (ring one_backend) = Inr 7
   \<and> increment test_hashing (PStr ''x'') (Returns (PInt 5)) one_backend
       = add test_hashing (PStr ''x'') (PInt 1) (Returns (PInt 5)) one_backend
   \<and> decrement test_hashing (PStr ''x'') (Returns (PInt 5)) one_backend
       = add test_hashing (PStr ''x'') (PInt (- 1)) (Returns (PInt 5)) one_backend
   \<and> sent (fst (increment test_hashing (PStr ''x'') (Returns (PInt 5)) one_backend))
       = [(7, Msg_id 0), (7, Msg_cmd (Cmd_add (PStr ''x'') (PInt 1)))]
   \<and> sent (fst (decrement test_hashing (PStr ''x'') (Returns (PInt 5)) one_backend))
       = [(7, Msg_id 0), (7, Msg_cmd (Cmd_add (PStr ''x'') (PInt (- 1))))]
   \<and> snd (increment test_hashing (PStr ''x'') (Returns (PInt 5)) one_backend) = Inr (PInt 5)
   \<and> snd (decrement test_hashing (PStr ''x'') (Returns (PInt 5)) one_backend) = Inr (PInt 5)"
proof -
  have g: "get_node test_hashing (PStr ''x'') (ring one_backend) = Inr 7"
    by (simp add: get_node_def test_hashing_def one_backend_def)
  have s: "sent one_backend = [(7, Msg_id 0)]"
    by (simp add: one_backend_def)
  from increment_decrement_are_add [of test_hashing "PStr ''x''" "Returns (PInt 5)" one_backend 7 "PInt 5"] g
  have "increment test_hashing (PStr ''x'') (Returns (PInt 5)) one_backend
       = add test_hashing (PStr ''x'') (PInt 1) (Returns (PInt 5)) one_backend
   \<and> decrement test_hashing (PStr ''x'') (Returns (PInt 5)) one_backend
       = add test_hashing (PStr ''x'') (PInt (- 1)) (Returns (PInt 5)) one_backend
   \<and> sent (fst (increment test_hashing (PStr ''x'') (Returns (PInt 5)) one_backend))
       = sent one_backend @ [(7, Msg_cmd (Cmd_add (PStr ''x'') (PInt 1)))]
   \<and> sent (fst (decrement test_hashing (PStr ''x'') (Returns (PInt 5)) one_backend))
       = sent one_backend @ [(7, Msg_cmd (Cmd_add (PStr ''x'') (PInt (- 1))))]
   \<and> snd (increment test_hashing (PStr ''x'') (Returns (PInt 5)) one_backend) = Inr (PInt 5)
   \<and> snd (decrement test_hashing (PStr ''x'') (Returns (PInt 5)) one_backend) = Inr (PInt 5)"
    by blast
  from this [unfolded s append_Cons append_Nil] g show ?thesis by blast
qed

text \<open>
  C3. With a connection waiting and the ids given out so far being \<open>0, 1, \<dots>\<close>, \<open>spawn\<close>
  returns after taking the first waiting connection and no other. The id is the size of the
  dictionary, above every id in it and one more than the largest; the connection and address
  are stored under it; the id is handed to the wire for the new socket, the first message on
  a socket not used before; the ring gets the node with \<open>num_virtual_replicas\<close> more
  positions.
\<close>

theorem spawn_registers_one_backend:
  assumes "backlog s = (client_socket, client_address) # waiting"
    and "ids_sequential s"
  shows "spawn h (Returns ()) s =
           Some (s\<lparr>backlog := waiting,
                   clients_dict := clients_dict s @
                     [(int (length (clients_dict s)), client_socket, client_address)],
                   sent := sent s @ [(client_socket, Msg_id (int (length (clients_dict s))))],
                   ring := add_node h client_socket (num_virtual_replicas s) (ring s)\<rparr>,
                 Inr PNone)
       \<and> (\<forall>k \<in> fst ` set (clients_dict s). k < int (length (clients_dict s)))
       \<and> (clients_dict s \<noteq> [] \<longrightarrow>
            int (length (clients_dict s)) = Max (fst ` set (clients_dict s)) + 1)
       \<and> (client_socket \<notin> fst ` set (sent s) \<longrightarrow>
            filter (\<lambda>m. fst m = client_socket)
              (sent s @ [(client_socket, Msg_id (int (length (clients_dict s))))]) =
            [(client_socket, Msg_id (int (length (clients_dict s))))])
       \<and> length (positions_of client_socket
            (add_node h client_socket (num_virtual_replicas s) (ring s))) =
          length (positions_of client_socket (ring s)) + nat (num_virtual_replicas s)
       \<and> ids_sequential
            (s\<lparr>backlog := waiting,
               clients_dict := clients_dict s @
                 [(int (length (clients_dict s)), client_socket, client_address)],
               sent := sent s @ [(client_socket, Msg_id (int (length (clients_dict s))))],
               ring := add_node h client_socket (num_virtual_replicas s) (ring s)\<rparr>)"
proof (intro conjI impI)
  from assms(2) have "AList.update (int (length (clients_dict s))) (client_socket, client_address)
      (clients_dict s) =
      clients_dict s @ [(int (length (clients_dict s)), client_socket, client_address)]"
    by (intro update_fresh_key ids_sequential_next_fresh)
  with assms(1) show "spawn h (Returns ()) s =
           Some (s\<lparr>backlog := waiting,
                   clients_dict := clients_dict s @
                     [(int (length (clients_dict s)), client_socket, client_address)],
                   sent := sent s @ [(client_socket, Msg_id (int (length (clients_dict s))))],
                   ring := add_node h client_socket (num_virtual_replicas s) (ring s)\<rparr>,
                 Inr PNone)"
    by (simp add: spawn_def Let_def)
next
  from assms(2) show "\<forall>k \<in> fst ` set (clients_dict s). k < int (length (clients_dict s))"
    by (auto simp: ids_sequential_keys)
next
  assume "clients_dict s \<noteq> []"
  with assms(2) show "int (length (clients_dict s)) = Max (fst ` set (clients_dict s)) + 1"
    by (simp add: ids_sequential_Max)
next
  assume "client_socket \<notin> fst ` set (sent s)"
  then have "filter (\<lambda>m. fst m = client_socket) (sent s) = []"
    by (auto simp: filter_empty_conv)
  then show "filter (\<lambda>m. fst m = client_socket)
              (sent s @ [(client_socket, Msg_id (int (length (clients_dict s))))]) =
            [(client_socket, Msg_id (int (length (clients_dict s))))]"
    by simp
next
  show "length (positions_of client_socket
            (add_node h client_socket (num_virtual_replicas s) (ring s))) =
          length (positions_of client_socket (ring s)) + nat (num_virtual_replicas s)"
    by (rule positions_of_add_node_same)
next
  from assms(2) show "ids_sequential
            (s\<lparr>backlog := waiting,
               clients_dict := clients_dict s @
                 [(int (length (clients_dict s)), client_socket, client_address)],
               sent := sent s @ [(client_socket, Msg_id (int (length (clients_dict s))))],
               ring := add_node h client_socket (num_virtual_replicas s) (ring s)\<rparr>)"
    by (simp add: ids_sequential_def)
qed

theorem spawn_registers_one_backend_witness:
  "backlog (one_backend\<lparr>backlog := [(8, (''10.0.0.3'', 6001)), (9, (''10.0.0.4'', 6002))]\<rparr>)
     = (8, (''10.0.0.3'', 6001)) # [(9, (''10.0.0.4'', 6002))]
   \<and> ids_sequential (one_backend\<lparr>backlog := [(8, (''10.0.0.3'', 6001)), (9, (''10.0.0.4'', 6002))]\<rparr>)
   \<and> spawn test_hashing (Returns ())
        (one_backend\<lparr>backlog := [(8, (''10.0.0.3'', 6001)), (9, (''10.0.0.4'', 6002))]\<rparr>)
     = Some (\<lparr>num_virtual_replicas = 2, expire = 0,
              ring = [(70, 7), (71, 7), (80, 8), (81, 8)],
              clients_dict = [(0, 7, (''10.0.0.2'', 6000)), (1, 8, (''10.0.0.3'', 6001))],
              cache_hits = 0, query_count = 0,
              backlog = [(9, (''10.0.0.4'', 6002))],
              sent = [(7, Msg_id 0), (8, Msg_id 1)],
              journal = [Log_config 2 0]\<rparr>, Inr PNone)
   \<and> (1::int) = Max (fst ` set [(0::int, 7::nat, (''10.0.0.2'', 6000::nat))]) + 1
   \<and> filter (\<lambda>m. fst m = 8) [(7::nat, Msg_id 0), (8, Msg_id 1)] = [(8, Msg_id 1)]
   \<and> length (positions_of 8 [(70, 7), (71, 7), (80, 8), (81, 8)]) = 2"
proof -
  have b: "backlog (one_backend\<lparr>backlog := [(8, (''10.0.0.3'', 6001)), (9, (''10.0.0.4'', 6002))]\<rparr>)
     = (8, (''10.0.0.3'', 6001)) # [(9, (''10.0.0.4'', 6002))]"
    by simp
  have i: "ids_sequential (one_backend\<lparr>backlog := [(8, (''10.0.0.3'', 6001)), (9, (''10.0.0.4'', 6002))]\<rparr>)"
    by (simp add: ids_sequential_def one_backend_def)
  from spawn_registers_one_backend [OF b i, of test_hashing] b i show ?thesis
    by (simp add: one_backend_def test_hashing_def add_node_def positions_of_def upt_rec)
qed

text \<open>
  C4, as stated, fails for the dictionary: after one backend has been registered and then
  delisted, the ring is empty and the dictionary still maps id 0 to its socket and address.
\<close>

theorem delist_keeps_registry_counterexample:
  "spawn test_hashing (Returns ())
     ((CacheServer_init 2 0)\<lparr>backlog := [(7, (''10.0.0.2'', 6000))]\<rparr>) = Some (one_backend, Inr PNone)
   \<and> map_of (clients_dict one_backend) 0 = Some (7, (''10.0.0.2'', 6000))
   \<and> ring (delist_unavailable_server 7 one_backend) = []
   \<and> map_of (clients_dict (delist_unavailable_server 7 one_backend)) 0 = Some (7, (''10.0.0.2'', 6000))
   \<and> clients_dict (delist_unavailable_server 7 one_backend) \<noteq> []"
  by (simp add: test_defs)

text \<open>
  C4, amended. Delisting a socket changes the ring only: no position of the socket is left,
  the positions of every other node are as before, and the dictionary is unchanged.
\<close>

theorem delist_removes_ring_positions_only:
  "delist_unavailable_server client_socket s = s\<lparr>ring := remove_node client_socket (ring s)\<rparr>
   \<and> positions_of client_socket (ring (delist_unavailable_server client_socket s)) = []
   \<and> (node \<noteq> client_socket \<longrightarrow>
        positions_of node (ring (delist_unavailable_server client_socket s)) =
        positions_of node (ring s))
   \<and> clients_dict (delist_unavailable_server client_socket s) = clients_dict s"
  by (simp add: delist_unavailable_server_def positions_of_remove_node_same
      positions_of_remove_node_other)

theorem delist_removes_ring_positions_only_witness:
  "(8::nat) \<noteq> 7
   \<and> positions_of 7 (ring (delist_unavailable_server 7
        (one_backend\<lparr>ring := [(70, 7), (71, 7), (80, 8), (81, 8)]\<rparr>))) = []
   \<and> positions_of 8 (ring (delist_unavailable_server 7
        (one_backend\<lparr>ring := [(70, 7), (71, 7), (80, 8), (81, 8)]\<rparr>))) = [(80, 8), (81, 8)]
   \<and> clients_dict (delist_unavailable_server 7
        (one_backend\<lparr>ring := [(70, 7), (71, 7), (80, 8), (81, 8)]\<rparr>))
      = [(0, 7, (''10.0.0.2'', 6000))]"
  using delist_removes_ring_positions_only [of 7
      "one_backend\<lparr>ring := [(70, 7), (71, 7), (80, 8), (81, 8)]\<rparr>" 8]
  by (simp add: one_backend_def positions_of_def remove_node_def)

end
